theory Spec2Isabelle
  imports Complex_Main "HOL-Library.Log_Nat"
begin

section \<open>The plugin-state example: the PluginStateTest component and the service it consumes\<close>

text \<open>
  The repository holds a React component (\<^verbatim>\<open>PluginStateTest.tsx\<close>) and the TypeScript
  declarations of the host services it is handed (\<^verbatim>\<open>types.ts\<close>). The component is
  modelled as a record of its instance fields and its React state; each method is a function
  from the component to the component it leaves behind, together with the calls it made on
  the host services and the way its promise settled. What the host answers, what the clock
  shows, and what happens to the component while one of its methods waits for a promise are
  inputs.

  JavaScript numbers are double-precision floating-point numbers, and are modelled as such.
  A field that may be \<^verbatim>\<open>null\<close> or absent is an \<open>option\<close>.
\<close>

subsection \<open>The declared service interface (types.ts)\<close>

text \<open>
  The TypeScript types that occur in the declaration of \<^verbatim>\<open>PluginStateService\<close>, and the
  declaration itself as the list of its members, in the order of the source.
\<close>

datatype ts_type =
    TsAny
  | TsVoid
  | TsBoolean
  | TsPromise ts_type
  | TsFunction "ts_type list" ts_type

definition PluginStateService :: "(string \<times> ts_type) list" where
  "PluginStateService =
    [(''configure'', TsFunction [TsAny] TsVoid),
     (''getConfiguration'', TsFunction [] TsAny),
     (''saveState'', TsFunction [TsAny] (TsPromise TsVoid)),
     (''getState'', TsFunction [] (TsPromise TsAny)),
     (''clearState'', TsFunction [] (TsPromise TsVoid)),
     (''validateState'', TsFunction [TsAny] TsBoolean),
     (''sanitizeState'', TsFunction [TsAny] TsAny),
     (''onSave'', TsFunction [TsFunction [TsAny] TsVoid] (TsFunction [] TsVoid)),
     (''onRestore'', TsFunction [TsFunction [TsAny] TsVoid] (TsFunction [] TsVoid)),
     (''onClear'', TsFunction [TsFunction [] TsVoid] (TsFunction [] TsVoid))]"

subsection \<open>JavaScript numbers\<close>

text \<open>
  A number is \<^verbatim>\<open>NaN\<close>, an infinity, the negative zero, or a finite double given by its
  value; \<open>Finite 0\<close> is the positive zero. The doubles are the numbers \<open>m * 2 ^ e\<close> with
  \<open>\<bar>m\<bar> < 2 ^ 53\<close> and \<open>- 1074 \<le> e \<le> 971\<close>.
\<close>

datatype number = NaN | PosInfinity | NegInfinity | NegZero | Finite rat

text \<open>For \<open>q > 0\<close>, the integer \<open>k\<close> with \<open>2 ^ k \<le> q < 2 ^ (k + 1)\<close>.\<close>

definition floor_log2 :: "rat \<Rightarrow> int" where
  "floor_log2 q = (if 1 \<le> q then bitlen \<lfloor>q\<rfloor> - 1 else - bitlen (\<lceil>1 / q\<rceil> - 1))"

text \<open>The nearest integer, the even one of the two when they are equally near.\<close>

definition round_half_even :: "rat \<Rightarrow> int" where
  "round_half_even s =
     (let f = \<lfloor>s\<rfloor>; r = s - of_int f
      in if r < 1 / 2 then f else if 1 / 2 < r then f + 1 else if even f then f else f + 1)"

text \<open>
  The double nearest to a rational number, ties to even: the number is scaled to a
  significand of 53 bits (fewer below \<open>2 ^ - 1022\<close>), which is rounded to an integer; a
  result of \<open>2 ^ 1024\<close> or more is an infinity.
\<close>

definition round_to_double :: "rat \<Rightarrow> number" where
  "round_to_double q =
     (if q = 0 then Finite 0
      else
        let a = \<bar>q\<bar>;
            e = max (floor_log2 a - 52) (- 1074);
            m = round_half_even (a * 2 powi (- e));
            v = of_int m * 2 powi e
        in if 2 powi 1024 \<le> v then (if 0 < q then PosInfinity else NegInfinity)
           else if v = 0 then (if 0 < q then Finite 0 else NegZero)
           else Finite (if 0 < q then v else - v))"

text \<open>\<^verbatim>\<open>x + y\<close> on numbers.\<close>

fun js_add :: "number \<Rightarrow> number \<Rightarrow> number" where
  "js_add NaN y = NaN"
| "js_add x NaN = NaN"
| "js_add PosInfinity NegInfinity = NaN"
| "js_add NegInfinity PosInfinity = NaN"
| "js_add PosInfinity y = PosInfinity"
| "js_add x PosInfinity = PosInfinity"
| "js_add NegInfinity y = NegInfinity"
| "js_add x NegInfinity = NegInfinity"
| "js_add NegZero y = y"
| "js_add x NegZero = x"
| "js_add (Finite a) (Finite b) = (if a + b = 0 then Finite 0 else round_to_double (a + b))"

fun js_negate :: "number \<Rightarrow> number" where
  "js_negate NaN = NaN"
| "js_negate PosInfinity = NegInfinity"
| "js_negate NegInfinity = PosInfinity"
| "js_negate NegZero = Finite 0"
| "js_negate (Finite a) = (if a = 0 then NegZero else Finite (- a))"

text \<open>\<^verbatim>\<open>x - y\<close> on numbers.\<close>

definition js_sub :: "number \<Rightarrow> number \<Rightarrow> number" where
  "js_sub x y = js_add x (js_negate y)"

text \<open>The numbers that count as false: \<^verbatim>\<open>NaN\<close> and the two zeros.\<close>

definition falsy :: "number \<Rightarrow> bool" where
  "falsy x = (x = NaN \<or> x = NegZero \<or> x = Finite 0)"

subsection \<open>Component state\<close>

record TestData =
  counter :: number
  textInput :: string
  checkboxValue :: bool
  selectValue :: string
  timestamp :: string


record PluginStateTestState =
  testData :: TestData
  isLoading :: bool
  error :: string
  currentTheme :: string
  isInitializing :: bool
  isStateConfigured :: bool
  lastSaveTime :: "string option"
  lastRestoreTime :: "string option"
  saveCount :: number
  restoreCount :: number
  debugLogs :: "string list"

text \<open>
  An unsubscribe function handed out by the host is identified by a handle. The component's
  private fields hold such handles or \<^verbatim>\<open>null\<close>; \<open>themeChangeListener\<close> holds the
  component's own closure or \<^verbatim>\<open>null\<close>, so it is a flag.

  \<open>mounted\<close> is not a field of the class but what React knows of the component: whether
  it is mounted. React applies the state updates of a mounted component and discards those
  of a component that is not yet mounted, is being unmounted, or has been unmounted.
\<close>

type_synonym unsubscribe = nat

record PluginStateTest =
  mounted :: bool
  themeChangeListener :: bool
  pageContextUnsubscribe :: "unsubscribe option"
  saveStateUnsubscribe :: "unsubscribe option"
  restoreStateUnsubscribe :: "unsubscribe option"
  clearStateUnsubscribe :: "unsubscribe option"
  state :: PluginStateTestState

text \<open>
  The clock as one synchronous stretch of code reads it: what
  \<^verbatim>\<open>new Date().toLocaleTimeString()\<close> and \<^verbatim>\<open>new Date().toISOString()\<close> return.
\<close>

record Clock =
  toLocaleTimeString :: string
  toISOString :: string

definition defaultTestData :: "string \<Rightarrow> TestData" where
  "defaultTestData ts =
     \<lparr>counter = Finite 0, textInput = '''', checkboxValue = False, selectValue = ''option1'',
      timestamp = ts\<rparr>"

text \<open>The constructor; \<open>clk\<close> is the clock at construction.\<close>

definition constructor :: "Clock \<Rightarrow> PluginStateTest" where
  "constructor clk =
     \<lparr>mounted = False,
      themeChangeListener = False,
      pageContextUnsubscribe = None,
      saveStateUnsubscribe = None,
      restoreStateUnsubscribe = None,
      clearStateUnsubscribe = None,
      state =
        \<lparr>testData = defaultTestData (toISOString clk),
         isLoading = False,
         error = '''',
         currentTheme = ''light'',
         isInitializing = True,
         isStateConfigured = False,
         lastSaveTime = None,
         lastRestoreTime = None,
         saveCount = Finite 0,
         restoreCount = Finite 0,
         debugLogs = []\<rparr>\<rparr>"

text \<open>
  \<^verbatim>\<open>this.setState\<close>: the update of a mounted component is applied; that of any other
  component is discarded.
\<close>

definition setState ::
  "(PluginStateTestState \<Rightarrow> PluginStateTestState) \<Rightarrow> PluginStateTest \<Rightarrow> PluginStateTest" where
  "setState f c = (if mounted c then c\<lparr>state := f (state c)\<rparr> else c)"

subsection \<open>The debug log\<close>

text \<open>
  \<^verbatim>\<open>xs.slice(-n)\<close> for \<open>n > 0\<close>: the elements from index \<open>max (length xs - n, 0)\<close> to the
  end.
\<close>

definition slice_from_end :: "nat \<Rightarrow> 'a list \<Rightarrow> 'a list" where
  "slice_from_end n xs = (if length xs \<le> n then xs else drop (length xs - n) xs)"

definition logEntry :: "Clock \<Rightarrow> string \<Rightarrow> string" where
  "logEntry clk message = ''['' @ toLocaleTimeString clk @ ''] '' @ message"

definition addDebugLog :: "Clock \<Rightarrow> string \<Rightarrow> PluginStateTest \<Rightarrow> PluginStateTest" where
  "addDebugLog clk message c =
     setState (\<lambda>prevState. prevState\<lparr>debugLogs :=
         slice_from_end 19 (debugLogs prevState) @ [logEntry clk message]\<rparr>) c"

subsection \<open>What the component exchanges with the host\<close>

text \<open>
  The object the component passes to \<^verbatim>\<open>saveState\<close> and reads from the result of
  \<^verbatim>\<open>getState\<close>: the properties \<^verbatim>\<open>testData\<close>, \<^verbatim>\<open>saveCount\<close> and
  \<^verbatim>\<open>restoreCount\<close>, each present or not. The result of \<^verbatim>\<open>getState\<close> is declared
  \<^verbatim>\<open>any\<close>; it is given the types of the state fields it is assigned to
  (\<^verbatim>\<open>TestData\<close>, \<^verbatim>\<open>number\<close>, \<^verbatim>\<open>number\<close>), which are also the types the configured
  schema declares.
\<close>

record Snapshot =
  snap_testData :: "TestData option"
  snap_saveCount :: "number option"
  snap_restoreCount :: "number option"


text \<open>
  The configuration object: a schema entry is \<^verbatim>\<open>{type, required, default}\<close>. The record
  is generic in the representation of type names and of default values.
\<close>

record ('t, 'v) FieldSpec =
  type_name :: 't
  required :: bool
  default_value :: 'v

record ('t, 'v) Configuration =
  pluginId :: string
  stateStrategy :: string
  preserveKeys :: "string list"
  stateSchema :: "(string \<times> ('t, 'v) FieldSpec) list"
  maxStateSize :: int

datatype SchemaValue = ObjectValue TestData | NumberValue number

text \<open>The object literal passed to \<^verbatim>\<open>configure\<close> in \<^verbatim>\<open>configurePluginState\<close>.\<close>

definition pluginStateConfiguration :: "Clock \<Rightarrow> (string, SchemaValue) Configuration" where
  "pluginStateConfiguration clk =
     \<lparr>pluginId = ''PluginState'',
      stateStrategy = ''session'',
      preserveKeys = [''testData'', ''saveCount'', ''restoreCount''],
      stateSchema =
        [(''testData'',
            \<lparr>type_name = ''object'', required = False,
             default_value = ObjectValue (defaultTestData (toISOString clk))\<rparr>),
         (''saveCount'',
            \<lparr>type_name = ''number'', required = False,
             default_value = NumberValue (Finite 0)\<rparr>),
         (''restoreCount'',
            \<lparr>type_name = ''number'', required = False,
             default_value = NumberValue (Finite 0)\<rparr>)],
      maxStateSize = 10240\<rparr>"

text \<open>
  What is thrown, or what a promise is rejected with, can be any value. The component only
  ever puts such a value into a template literal, \<^verbatim>\<open>${error}\<close>, which converts it to a
  string. \<open>Text s\<close> is a value that converts to \<open>s\<close> (an \<^verbatim>\<open>Error\<close> converts to its name
  and message); \<open>Throws e\<close> is a value whose conversion throws \<open>e\<close> (a symbol, an object
  without a usable \<^verbatim>\<open>toString\<close>); \<open>Once a b\<close> is a value that is converted as \<open>a\<close>
  is the first time and is \<open>b\<close> from then on (an object whose \<^verbatim>\<open>toString\<close> does not
  always answer the same). \<open>to_string\<close> gives the outcome of one conversion, the thrown
  value or the string, and what the value is afterwards.
\<close>

datatype rejection = Text string | Throws rejection | Once rejection rejection

fun to_string :: "rejection \<Rightarrow> (rejection + string) \<times> rejection" where
  "to_string (Text s) = (Inr s, Text s)"
| "to_string (Throws e) = (Inl e, Throws e)"
| "to_string (Once a b) = (fst (to_string a), b)"

datatype completion = Resolved | Rejected rejection

text \<open>The calls the component makes on the host services.\<close>

datatype host_call =
    GetCurrentTheme
  | AddThemeChangeListener
  | RemoveThemeChangeListener
  | OnPageContextChange
  | Configure "(string, SchemaValue) Configuration"
  | OnSave
  | OnRestore
  | OnClear
  | SaveState Snapshot
  | GetState
  | ClearState
  | Unsubscribe unsubscribe

text \<open>
  The host as the component meets it. \<open>props.services\<close> is a bag in which each service
  may be absent; a service that is present is described by what it answers.
  \<^item> \<open>theme\<close>: what \<^verbatim>\<open>getCurrentTheme()\<close> returns;
  \<^item> \<open>pageContext\<close>: the unsubscribe function \<^verbatim>\<open>onPageContextChange\<close> returns;
  \<^item> \<open>pluginState\<close>: whether \<^verbatim>\<open>configure\<close> throws, the unsubscribe functions the three
    registrars return, and how the promises of \<^verbatim>\<open>saveState\<close>, \<^verbatim>\<open>getState\<close> and
    \<^verbatim>\<open>clearState\<close> settle (\<open>Inl\<close>: rejected; for \<^verbatim>\<open>getState\<close>, \<open>Inr None\<close> is a
    \<^verbatim>\<open>null\<close> or \<^verbatim>\<open>undefined\<close> result).
  The services \<^verbatim>\<open>api\<close>, \<^verbatim>\<open>event\<close> and \<^verbatim>\<open>settings\<close> of the bag are never used by the
  component. The functions of the host that are declared to return \<^verbatim>\<open>void\<close> or an
  unsubscribe function (the theme service's, the registrars, the unsubscribe functions
  themselves) are taken to return normally; \<^verbatim>\<open>configure\<close>, for which the specification
  names an error, may throw.
\<close>

record PluginStateReplies =
  configureThrows :: "rejection option"
  onSaveReturns :: unsubscribe
  onRestoreReturns :: unsubscribe
  onClearReturns :: unsubscribe
  saveStateSettles :: "rejection + unit"
  getStateSettles :: "rejection + Snapshot option"
  clearStateSettles :: "rejection + unit"

record Services =
  theme :: "string option"
  pageContext :: "unsubscribe option"
  pluginState :: "PluginStateReplies option"

text \<open>
  What a method leaves behind: how it completed (a method that throws, or whose promise is
  rejected, is \<open>Rejected\<close>), the calls that were made on the host in order, and the
  component.
\<close>

record Run =
  completion :: completion
  calls :: "host_call list"
  component :: PluginStateTest

text \<open>
  A method that awaits a promise stops there and goes on later, when the promise has
  settled. A pause is what happened in between: \<open>meanwhile\<close> is what React and the other
  handlers of the component (the lifecycle callbacks it registered, the theme listener,
  events of the form, an unmount) did to the component and which calls they made on the
  host, and \<open>resumes\<close> is the clock when the method goes on. The code after an
  \<^verbatim>\<open>await\<close> reads \<^verbatim>\<open>this.state\<close> afresh.
\<close>

record Pause =
  meanwhile :: "PluginStateTest \<Rightarrow> host_call list \<times> PluginStateTest"
  resumes :: Clock

text \<open>The pause in which nothing happens to the component.\<close>

definition undisturbed :: "Clock \<Rightarrow> Pause" where
  "undisturbed clk = \<lparr>meanwhile = (\<lambda>c. ([], c)), resumes = clk\<rparr>"

subsection \<open>Mounting and unmounting\<close>

definition initializeServices :: "Services \<Rightarrow> Clock \<Rightarrow> PluginStateTest \<Rightarrow> Run" where
  "initializeServices services clk c =
     (let (calls1, c1) =
            (case theme services of
               None \<Rightarrow> ([], c)
             | Some currentTheme' \<Rightarrow>
                 ([GetCurrentTheme, AddThemeChangeListener],
                  addDebugLog clk ''Theme service initialized''
                    ((setState (\<lambda>s. s\<lparr>currentTheme := currentTheme'\<rparr>) c)
                       \<lparr>themeChangeListener := True\<rparr>)));
          (calls2, c2) =
            (case pageContext services of
               None \<Rightarrow> ([], c1)
             | Some u \<Rightarrow>
                 ([OnPageContextChange],
                  addDebugLog clk ''Page context service initialized''
                    (c1\<lparr>pageContextUnsubscribe := Some u\<rparr>)))
      in \<lparr>completion = Resolved, calls = calls1 @ calls2, component = c2\<rparr>)"

definition configurePluginState :: "Services \<Rightarrow> Clock \<Rightarrow> PluginStateTest \<Rightarrow> Run" where
  "configurePluginState services clk c =
     (case pluginState services of
        None \<Rightarrow>
          \<lparr>completion = Rejected (Text ''Error: Plugin state service not available''),
           calls = [], component = c\<rparr>
      | Some ps \<Rightarrow>
          (case configureThrows ps of
             Some e \<Rightarrow>
               \<lparr>completion = Rejected e,
                calls = [Configure (pluginStateConfiguration clk)], component = c\<rparr>
           | None \<Rightarrow>
               \<lparr>completion = Resolved,
                calls = [Configure (pluginStateConfiguration clk), OnSave, OnRestore, OnClear],
                component =
                  addDebugLog clk ''Plugin state configured successfully''
                    (setState (\<lambda>s. s\<lparr>isStateConfigured := True\<rparr>)
                       (c\<lparr>saveStateUnsubscribe := Some (onSaveReturns ps),
                          restoreStateUnsubscribe := Some (onRestoreReturns ps),
                          clearStateUnsubscribe := Some (onClearReturns ps)\<rparr>))\<rparr>))"

text \<open>\<^verbatim>\<open>if (this.f) { this.f(); }\<close> for a field holding an unsubscribe function.\<close>

definition call_if_set :: "unsubscribe option \<Rightarrow> host_call list" where
  "call_if_set f = (case f of None \<Rightarrow> [] | Some u \<Rightarrow> [Unsubscribe u])"

definition cleanupServices :: "Services \<Rightarrow> Clock \<Rightarrow> PluginStateTest \<Rightarrow> Run" where
  "cleanupServices services clk c =
     \<lparr>completion = Resolved,
      calls =
        (if theme services \<noteq> None \<and> themeChangeListener c
         then [RemoveThemeChangeListener] else [])
        @ call_if_set (pageContextUnsubscribe c)
        @ call_if_set (saveStateUnsubscribe c)
        @ call_if_set (restoreStateUnsubscribe c)
        @ call_if_set (clearStateUnsubscribe c),
      component = addDebugLog clk ''Services cleaned up'' c\<rparr>"

text \<open>
  \<^verbatim>\<open>componentWillUnmount\<close>: React calls it on the component it is unmounting, whose state
  updates it discards from then on; the method calls \<^verbatim>\<open>cleanupServices\<close>, and nothing
  else does.
\<close>

definition componentWillUnmount :: "Services \<Rightarrow> Clock \<Rightarrow> PluginStateTest \<Rightarrow> Run" where
  "componentWillUnmount services clk c = cleanupServices services clk (c\<lparr>mounted := False\<rparr>)"

text \<open>An unmount while a method of the component waits for a promise.\<close>

definition unmounted_meanwhile :: "Services \<Rightarrow> Clock \<Rightarrow> Clock \<Rightarrow> Pause" where
  "unmounted_meanwhile services clk clk' =
     \<lparr>meanwhile =
        (\<lambda>c. (calls (componentWillUnmount services clk c),
              component (componentWillUnmount services clk c))),
      resumes = clk'\<rparr>"

subsection \<open>Save, restore, clear\<close>

text \<open>
  Each of the three methods awaits one promise of the state service: the code before the
  \<^verbatim>\<open>await\<close> runs at clock \<open>clk\<close>, then comes the pause, then the code after it.

  The \<^verbatim>\<open>catch\<close> block of the three methods is the same but for the two texts:
  \<^verbatim>\<open>this.setState({isLoading: false, error: `Failed to save state: ${error}`});\<close>
  \<^verbatim>\<open>this.addDebugLog(`Save failed: ${error}`);\<close>
  Each template literal converts the caught value, and does so before the call it is the
  argument of. When a conversion throws, the block is left at once and the promise of the
  method is rejected with what was thrown.
\<close>

definition operationFailed ::
  "string \<Rightarrow> string \<Rightarrow> rejection \<Rightarrow> Clock \<Rightarrow> PluginStateTest
     \<Rightarrow> completion \<times> PluginStateTest" where
  "operationFailed error_text log_text e clk c =
     (case to_string e of
        (Inl thrown, _) \<Rightarrow> (Rejected thrown, c)
      | (Inr msg, e') \<Rightarrow>
          (let c' = setState (\<lambda>s. s\<lparr>isLoading := False, error := error_text @ msg\<rparr>) c
           in case fst (to_string e') of
                Inl thrown \<Rightarrow> (Rejected thrown, c')
              | Inr msg' \<Rightarrow> (Resolved, addDebugLog clk (log_text @ msg') c')))"



text \<open>\<^verbatim>\<open>x || 0\<close> for a number that may be absent.\<close>

definition or_zero :: "number option \<Rightarrow> number" where
  "or_zero x = (case x of None \<Rightarrow> Finite 0 | Some n \<Rightarrow> (if falsy n then Finite 0 else n))"

definition restoreState :: "Services \<Rightarrow> Clock \<Rightarrow> Pause \<Rightarrow> PluginStateTest \<Rightarrow> Run" where
  "restoreState services clk pause c =
     (case pluginState services of
        None \<Rightarrow>
          \<lparr>completion = Resolved, calls = [],
           component =
             addDebugLog clk ''ERROR: Plugin state service not available for restore'' c\<rparr>
      | Some ps \<Rightarrow>
          (let c1 = setState (\<lambda>s. s\<lparr>isLoading := True\<rparr>) c;
               (others, c2) = meanwhile pause c1;
               clk' = resumes pause
           in case getStateSettles ps of
                Inr (Some restoredState) \<Rightarrow>
                  \<lparr>completion = Resolved, calls = GetState # others,
                   component =
                     addDebugLog clk' ''State restored successfully''
                       (setState
                          (\<lambda>s. s\<lparr>testData :=
                                     (case snap_testData restoredState of
                                        Some restored \<Rightarrow> restored
                                      | None \<Rightarrow> testData (state c2)),
                                   saveCount := or_zero (snap_saveCount restoredState),
                                   restoreCount :=
                                     js_add (or_zero (snap_restoreCount restoredState)) (Finite 1),
                                   lastRestoreTime := Some (toLocaleTimeString clk'),
                                   isLoading := False\<rparr>) c2)\<rparr>
              | Inr None \<Rightarrow>
                  \<lparr>completion = Resolved, calls = GetState # others,
                   component =
                     addDebugLog clk' ''No saved state found''
                       (setState (\<lambda>s. s\<lparr>isLoading := False\<rparr>) c2)\<rparr>
              | Inl e \<Rightarrow>
                  (let (outcome, c3) =
                         operationFailed ''Failed to restore state: '' ''Restore failed: '' e clk' c2
                   in \<lparr>completion = outcome, calls = GetState # others, component = c3\<rparr>)))"


text \<open>
  The \<^verbatim>\<open>catch\<close> block of \<^verbatim>\<open>componentDidMount\<close>: here \<^verbatim>\<open>setState\<close> comes first and
  the template literal after it.
\<close>

definition initializationFailed ::
  "rejection \<Rightarrow> Clock \<Rightarrow> PluginStateTest \<Rightarrow> completion \<times> PluginStateTest" where
  "initializationFailed e clk c =
     (let c' = setState (\<lambda>s. s\<lparr>error := ''Failed to initialize plugin state test'',
                                isInitializing := False\<rparr>) c
      in case fst (to_string e) of
           Inr msg \<Rightarrow> (Resolved, addDebugLog clk (''Initialization failed: '' @ msg) c')
         | Inl thrown \<Rightarrow> (Rejected thrown, c'))"

text \<open>
  \<^verbatim>\<open>componentDidMount\<close>: React calls it on the component it has mounted. The method
  awaits \<^verbatim>\<open>initializeServices\<close>, \<^verbatim>\<open>configurePluginState\<close> and \<^verbatim>\<open>restoreState\<close> in
  turn, so it pauses after each of them (\<open>p1\<close>, \<open>p2\<close>, \<open>p4\<close>), and \<^verbatim>\<open>restoreState\<close>
  pauses for \<^verbatim>\<open>getState\<close> (\<open>p3\<close>). Nothing in it asks whether the component is still
  mounted when it goes on.
\<close>

definition componentDidMount ::
  "Services \<Rightarrow> Clock \<Rightarrow> Pause \<Rightarrow> Pause \<Rightarrow> Pause \<Rightarrow> Pause \<Rightarrow> PluginStateTest \<Rightarrow> Run" where
  "componentDidMount services clk p1 p2 p3 p4 c =
     (let r1 = initializeServices services clk (c\<lparr>mounted := True\<rparr>);
          (others1, c1) = meanwhile p1 (component r1);
          r2 = configurePluginState services (resumes p1) c1;
          (others2, c2) = meanwhile p2 (component r2)
      in case completion r2 of
           Rejected e \<Rightarrow>
             (let (outcome, c3) = initializationFailed e (resumes p2) c2
              in \<lparr>completion = outcome,
                  calls = calls r1 @ others1 @ calls r2 @ others2,
                  component = c3\<rparr>)
         | Resolved \<Rightarrow>
             (let r3 = restoreState services (resumes p2) p3 c2;
                  (others4, c4) = meanwhile p4 (component r3);
                  (outcome, c5) =
                    (case completion r3 of
                       Rejected e \<Rightarrow> initializationFailed e (resumes p4) c4
                     | Resolved \<Rightarrow>
                         (Resolved,
                          addDebugLog (resumes p4) ''Component initialized successfully''
                            (setState (\<lambda>s. s\<lparr>isInitializing := False\<rparr>) c4)))
              in \<lparr>completion = outcome,
                  calls = calls r1 @ others1 @ calls r2 @ others2 @ calls r3 @ others4,
                  component = c5\<rparr>))"

subsection \<open>The form\<close>











section \<open>The state service as the specification describes it\<close>

text \<open>
  The implementation of \<^verbatim>\<open>PluginStateService\<close> belongs to the host application; the
  repository has its declaration and its use only. The definitions of this section follow
  sections 3, 4 and 7 of the specification. What the specification leaves to the implementer
  is a parameter: the strategies that are recognised, when a value conforms to a declared
  type, the size of a serialised snapshot, and the policy for a value of the wrong type
  (use the declared default, or fail). The storage medium is taken to be available and to
  return what was stored; the dispatch of lifecycle callbacks, which by section 4.2 cannot
  undo or fail an operation, is left out.
\<close>

text \<open>
  Modelled from the spec: the error kinds of section 7, which the host raises. A
  \<open>ConfigurationError\<close> names the offending fields, a \<open>ValidationError\<close> the field.
\<close>

datatype StateError =
    ConfigurationError "string list"
  | ValidationError string
  | StateTooLargeError
  | StorageUnavailableError
  | NotConfiguredError

text \<open>
  Modelled from the spec: the choices section 4.2 leaves to the implementation of the host.
\<close>

datatype mismatch_policy = UseDefault | FailFast

text \<open>
  Modelled from the spec: what the specification leaves open about the host's store. The
  strategies it recognises (section 4.1), when a value has a declared type and what becomes
  of one that has not (step (b) of section 4.2), and the size of a serialised snapshot (step
  (c)).
\<close>

record ('t, 'v) StorePolicy =
  recognizedStrategies :: "string list"
  conforms :: "'t \<Rightarrow> 'v \<Rightarrow> bool"
  serializedSize :: "(string \<times> 'v) list \<Rightarrow> nat"
  onMismatch :: mismatch_policy

text \<open>
  Modelled from the spec: the state of the host's store, that is the active configuration, if
  any, and the medium, which maps a plugin id to the snapshot persisted for it.
\<close>

record ('t, 'v) StateStore =
  configuration :: "('t, 'v) Configuration option"
  medium :: "string \<Rightarrow> (string \<times> 'v) list option"

text \<open>
  Modelled from the spec: the validation of \<^verbatim>\<open>configure\<close> (section 4.1), which the host
  implements. The fields of a configuration that break a validity condition, in the order
  the conditions are listed; a configuration is valid when there is none.
\<close>

definition offending_fields :: "string list \<Rightarrow> ('t, 'v) Configuration \<Rightarrow> string list" where
  "offending_fields recognized cfg =
     (if pluginId cfg = [] then [''pluginId''] else [])
     @ (if stateStrategy cfg \<in> set recognized then [] else [''stateStrategy''])
     @ (if list_all (\<lambda>k. k \<in> set (map fst (stateSchema cfg))) (preserveKeys cfg)
        then [] else [''preserveKeys''])
     @ (if 0 < maxStateSize cfg then [] else [''maxStateSize''])"

text \<open>
  Modelled from the spec: \<^verbatim>\<open>configure\<close> and \<^verbatim>\<open>getConfiguration\<close> of section 4.1. An
  invalid configuration is refused and nothing of it is retained; a valid one replaces the
  active one.
\<close>

definition store_configure ::
  "('t, 'v) StorePolicy \<Rightarrow> ('t, 'v) Configuration \<Rightarrow> ('t, 'v) StateStore
     \<Rightarrow> (StateError + unit) \<times> ('t, 'v) StateStore" where
  "store_configure pol cfg st =
     (case offending_fields (recognizedStrategies pol) cfg of
        [] \<Rightarrow> (Inr (), st\<lparr>configuration := Some cfg\<rparr>)
      | f # fs \<Rightarrow> (Inl (ConfigurationError (f # fs)), st))"

definition store_getConfiguration :: "('t, 'v) StateStore \<Rightarrow> ('t, 'v) Configuration option" where
  "store_getConfiguration st = configuration st"

text \<open>
  Modelled from the spec: step (a) of \<^verbatim>\<open>saveState\<close> (section 4.2), the fields of a
  snapshot that are listed in \<^verbatim>\<open>preserveKeys\<close>.
\<close>

definition keep_preserved :: "('t, 'v) Configuration \<Rightarrow> (string \<times> 'v) list \<Rightarrow> (string \<times> 'v) list" where
  "keep_preserved cfg snap = filter (\<lambda>(k, v). k \<in> set (preserveKeys cfg)) snap"

text \<open>
  Modelled from the spec: step (b) of \<^verbatim>\<open>saveState\<close>, each field checked against the
  type its schema entry declares. A field of the wrong type takes its declared default or
  fails the save, by the policy; a field with no schema entry has nothing to be checked
  against.
\<close>

fun validate_fields ::
  "('t, 'v) StorePolicy \<Rightarrow> (string \<times> ('t, 'v) FieldSpec) list \<Rightarrow> (string \<times> 'v) list
     \<Rightarrow> StateError + (string \<times> 'v) list" where
  "validate_fields pol schema [] = Inr []"
| "validate_fields pol schema ((k, v) # rest) =
     (case map_of schema k of
        None \<Rightarrow>
          (case validate_fields pol schema rest of
             Inl e \<Rightarrow> Inl e
           | Inr rest' \<Rightarrow> Inr ((k, v) # rest'))
      | Some spec \<Rightarrow>
          if conforms pol (type_name spec) v
          then (case validate_fields pol schema rest of
                  Inl e \<Rightarrow> Inl e
                | Inr rest' \<Rightarrow> Inr ((k, v) # rest'))
          else (case onMismatch pol of
                  FailFast \<Rightarrow> Inl (ValidationError k)
                | UseDefault \<Rightarrow>
                    (case validate_fields pol schema rest of
                       Inl e \<Rightarrow> Inl e
                     | Inr rest' \<Rightarrow> Inr ((k, default_value spec) # rest'))))"

text \<open>
  Modelled from the spec: \<^verbatim>\<open>saveState\<close> of section 4.2, steps (a) to (d), with the
  \<^verbatim>\<open>NotConfiguredError\<close> of section 7. The size that is compared with
  \<^verbatim>\<open>maxStateSize\<close> is that of the payload: the snapshot after steps (a) and (b).
\<close>

definition store_saveState ::
  "('t, 'v) StorePolicy \<Rightarrow> (string \<times> 'v) list \<Rightarrow> ('t, 'v) StateStore
     \<Rightarrow> (StateError + unit) \<times> ('t, 'v) StateStore" where
  "store_saveState pol snap st =
     (case configuration st of
        None \<Rightarrow> (Inl NotConfiguredError, st)
      | Some cfg \<Rightarrow>
          (case validate_fields pol (stateSchema cfg) (keep_preserved cfg snap) of
             Inl e \<Rightarrow> (Inl e, st)
           | Inr payload \<Rightarrow>
               if maxStateSize cfg < int (serializedSize pol payload)
               then (Inl StateTooLargeError, st)
               else (Inr (), st\<lparr>medium := (medium st)(pluginId cfg \<mapsto> payload)\<rparr>)))"

text \<open>
  Modelled from the spec: the re-validation of \<^verbatim>\<open>getState\<close> (section 4.3). A persisted
  field whose type no longer matches the schema falls back to its default; a field of the
  schema that the persisted snapshot lacks gets its default.
\<close>

text \<open>
  Modelled from the spec: the defaults \<^verbatim>\<open>getState\<close> fills in (section 4.3), one for
  each field of the schema that a snapshot lacks.
\<close>

definition missing_defaults ::
  "(string \<times> ('t, 'v) FieldSpec) list \<Rightarrow> (string \<times> 'v) list \<Rightarrow> (string \<times> 'v) list" where
  "missing_defaults schema snap =
     map (\<lambda>(k, spec). (k, default_value spec))
       (filter (\<lambda>(k, spec). k \<notin> set (map fst snap)) schema)"

definition revalidate ::
  "('t, 'v) StorePolicy \<Rightarrow> (string \<times> ('t, 'v) FieldSpec) list \<Rightarrow> (string \<times> 'v) list
     \<Rightarrow> (string \<times> 'v) list" where
  "revalidate pol schema snap =
     map (\<lambda>(k, v).
            case map_of schema k of
              None \<Rightarrow> (k, v)
            | Some spec \<Rightarrow>
                if conforms pol (type_name spec) v then (k, v) else (k, default_value spec))
         snap
     @ missing_defaults schema snap"

text \<open>
  Modelled from the spec: \<^verbatim>\<open>getState\<close> of section 4.3. \<open>Inr None\<close> is the "no state"
  result.
\<close>

definition store_getState ::
  "('t, 'v) StorePolicy \<Rightarrow> ('t, 'v) StateStore
     \<Rightarrow> (StateError + (string \<times> 'v) list option) \<times> ('t, 'v) StateStore" where
  "store_getState pol st =
     (case configuration st of
        None \<Rightarrow> (Inl NotConfiguredError, st)
      | Some cfg \<Rightarrow>
          (case medium st (pluginId cfg) of
             None \<Rightarrow> (Inr None, st)
           | Some persisted \<Rightarrow> (Inr (Some (revalidate pol (stateSchema cfg) persisted)), st)))"

text \<open>Modelled from the spec: \<^verbatim>\<open>clearState\<close> of section 4.4.\<close>

definition store_clearState ::
  "('t, 'v) StateStore \<Rightarrow> (StateError + unit) \<times> ('t, 'v) StateStore" where
  "store_clearState st =
     (case configuration st of
        None \<Rightarrow> (Inl NotConfiguredError, st)
      | Some cfg \<Rightarrow> (Inr (), st\<lparr>medium := (medium st)(pluginId cfg := None)\<rparr>))"

text \<open>
  Modelled from the spec: a snapshot conforms to the schema's declared types (section 3)
  when each of its preserved fields that the schema declares has the declared type.
\<close>

definition conforming ::
  "('t, 'v) StorePolicy \<Rightarrow> ('t, 'v) Configuration \<Rightarrow> (string \<times> 'v) list \<Rightarrow> bool" where
  "conforming pol cfg snap =
     list_all (\<lambda>(k, v).
                 case map_of (stateSchema cfg) k of
                   None \<Rightarrow> True
                 | Some spec \<Rightarrow> conforms pol (type_name spec) v)
       (keep_preserved cfg snap)"

text \<open>
  Modelled from the spec: the strategies a host recognises. The specification names one,
  \<open>session\<close> (sections 3 and 6), and leaves every other to the future.
\<close>

definition recognized_strategies :: "string list" where
  "recognized_strategies = [''session'']"

section \<open>Sample inputs\<close>

text \<open>Concrete inputs, at which the theorems below are instantiated.\<close>

definition sample_clock :: Clock where
  "sample_clock = \<lparr>toLocaleTimeString = ''10:15:00'', toISOString = ''2025-01-01T10:15:00.000Z''\<rparr>"

definition later_clock :: Clock where
  "later_clock = \<lparr>toLocaleTimeString = ''10:15:02'', toISOString = ''2025-01-01T10:15:02.000Z''\<rparr>"

text \<open>
  A host with all three services whose state service settles \<^verbatim>\<open>saveState\<close> and
  \<^verbatim>\<open>clearState\<close> with \<open>r\<close> and \<^verbatim>\<open>getState\<close> with \<open>g\<close>.
\<close>

definition sample_services ::
  "rejection + unit \<Rightarrow> rejection + Snapshot option \<Rightarrow> Services" where
  "sample_services r g =
     \<lparr>theme = Some ''dark'',
      pageContext = Some 7,
      pluginState =
        Some \<lparr>configureThrows = None,
              onSaveReturns = 11, onRestoreReturns = 12, onClearReturns = 13,
              saveStateSettles = r, getStateSettles = g, clearStateSettles = r\<rparr>\<rparr>"

text \<open>
  A store policy over integer values, and a configuration with two preserved numeric fields.
\<close>

definition sample_policy :: "(string, int) StorePolicy" where
  "sample_policy =
     \<lparr>recognizedStrategies = [''session''],
      conforms = (\<lambda>t v. True),
      serializedSize = (\<lambda>snap. sum_list (map (\<lambda>(k, v). length k + 8) snap)),
      onMismatch = FailFast\<rparr>"

definition sample_configuration :: "(string, int) Configuration" where
  "sample_configuration =
     \<lparr>pluginId = ''Sample'',
      stateStrategy = ''session'',
      preserveKeys = [''counter'', ''total''],
      stateSchema =
        [(''counter'', \<lparr>type_name = ''number'', required = False, default_value = 0\<rparr>),
         (''total'', \<lparr>type_name = ''number'', required = False, default_value = 0\<rparr>)],
      maxStateSize = 24\<rparr>"

definition sample_store :: "(string, int) StateStore" where
  "sample_store =
     \<lparr>configuration = Some sample_configuration,
      medium = [''Sample'' \<mapsto> [(''counter'', 1)], ''Other'' \<mapsto> [(''x'', 2)]]\<rparr>"




text \<open>A freshly constructed component that React has mounted.\<close>

definition mounted_component :: PluginStateTest where
  "mounted_component = (constructor sample_clock)\<lparr>mounted := True\<rparr>"






section \<open>Notions used to state the properties\<close>





text \<open>The configurations that a sequence of calls passes to \<^verbatim>\<open>configure\<close>.\<close>

fun configurations_passed :: "host_call list \<Rightarrow> (string, SchemaValue) Configuration list" where
  "configurations_passed [] = []"
| "configurations_passed (Configure cfg # cs) = cfg # configurations_passed cs"
| "configurations_passed (other # cs) = configurations_passed cs"

text \<open>The private fields of the component that hold what it registered with the host.\<close>

definition subscriptions ::
  "PluginStateTest \<Rightarrow> bool \<times> unsubscribe option \<times> unsubscribe option \<times> unsubscribe option
     \<times> unsubscribe option" where
  "subscriptions c =
     (themeChangeListener c, pageContextUnsubscribe c, saveStateUnsubscribe c,
      restoreStateUnsubscribe c, clearStateUnsubscribe c)"

section \<open>Properties of the declared interface\<close>

text \<open>
  Claim C1. The interface \<open>PluginStateService\<close> declares \<open>configure\<close>, taking a
  configuration and returning \<open>void\<close>; \<open>saveState\<close>, \<open>getState\<close> and \<open>clearState\<close>,
  each returning a promise; and \<open>onSave\<close>, \<open>onRestore\<close> and \<open>onClear\<close>, each taking a
  callback and returning an unsubscribe function of type \<open>() => void\<close>. Each name is
  declared once. (The interface declares \<open>getConfiguration\<close>, \<open>validateState\<close> and
  \<open>sanitizeState\<close> besides.)
\<close>

theorem interface_surface:
  "map_of PluginStateService ''configure'' = Some (TsFunction [TsAny] TsVoid)
   \<and> map_of PluginStateService ''saveState'' = Some (TsFunction [TsAny] (TsPromise TsVoid))
   \<and> map_of PluginStateService ''getState'' = Some (TsFunction [] (TsPromise TsAny))
   \<and> map_of PluginStateService ''clearState'' = Some (TsFunction [] (TsPromise TsVoid))
   \<and> map_of PluginStateService ''onSave''
       = Some (TsFunction [TsFunction [TsAny] TsVoid] (TsFunction [] TsVoid))
   \<and> map_of PluginStateService ''onRestore''
       = Some (TsFunction [TsFunction [TsAny] TsVoid] (TsFunction [] TsVoid))
   \<and> map_of PluginStateService ''onClear''
       = Some (TsFunction [TsFunction [] TsVoid] (TsFunction [] TsVoid))
   \<and> distinct (map fst PluginStateService)"
  by (simp add: PluginStateService_def)

section \<open>Properties of JavaScript numbers\<close>

text \<open>
  Adding and subtracting 1 is exact on the integers of magnitude below \<open>2 ^ 53\<close>; at
  \<open>2 ^ 53\<close> adding 1 changes nothing.
\<close>

lemma round_half_even_of_int: "round_half_even (of_int n) = n"
  by (simp add: round_half_even_def)

lemma floor_log2_of_int: "1 \<le> n \<Longrightarrow> floor_log2 (of_int n) = bitlen n - 1"
  by (simp add: floor_log2_def)

lemma round_to_double_small:
  assumes "1 \<le> n" and "n < 2 ^ 53"
  shows "round_to_double (of_int n) = Finite (of_int n)"
proof -
  define k where "k = bitlen n - 1"
  have pos: "0 < n" using assms by simp
  have "bitlen n \<le> 53"
    using assms by (simp add: bitlen_le_iff_power)
  moreover have "1 \<le> bitlen n"
    using pos by (simp add: bitlen_ge_iff_power)
  ultimately have k: "0 \<le> k" "k \<le> 52" by (simp_all add: k_def)
  have e: "max (floor_log2 (of_int n) - 52) (- 1074) = k - 52"
    using k assms by (simp add: floor_log2_of_int k_def)
  have scale: "(of_int n :: rat) * 2 powi (- (k - 52)) = of_int (n * 2 ^ nat (52 - k))"
    using k by (simp add: power_int_def)
  have undo: "(of_int (n * 2 ^ nat (52 - k)) :: rat) * 2 powi (k - 52) = of_int n"
    using k by (simp add: power_int_def field_simps flip: power_inverse)
  have small: "\<not> (2 powi 1024 \<le> (of_int n :: rat))"
  proof -
    have "(of_int n :: rat) < 2 ^ 53" using assms by (simp flip: of_int_less_iff)
    also have "\<dots> \<le> 2 ^ 1024" by (rule power_increasing) simp_all
    finally show ?thesis by simp
  qed
  have abs: "\<bar>of_int n :: rat\<bar> = of_int n" using pos by simp
  have nz: "(of_int n :: rat) \<noteq> 0" "(0 :: rat) < of_int n" using pos by simp_all
  show ?thesis
    unfolding round_to_double_def Let_def abs e scale round_half_even_of_int undo
    using nz small by simp
qed

lemma round_to_double_limit:
  "round_to_double 9007199254740992 = Finite 9007199254740992"
  by code_simp

lemma round_to_double_neg:
  "q \<noteq> 0 \<Longrightarrow> round_to_double q = Finite q \<Longrightarrow> round_to_double (- q) = Finite (- q)"
  by (auto simp: round_to_double_def Let_def split: if_splits)

lemma round_to_double_int:
  assumes "j \<noteq> 0" and "\<bar>j\<bar> \<le> 2 ^ 53"
  shows "round_to_double (of_int j) = Finite (of_int j)"
proof -
  have pos: "round_to_double (of_int n) = Finite (of_int n)" if "1 \<le> n" "n \<le> 2 ^ 53" for n :: int
  proof (cases "n = 2 ^ 53")
    case True
    then show ?thesis using round_to_double_limit by simp
  next
    case False
    with that show ?thesis by (simp add: round_to_double_small)
  qed
  show ?thesis
  proof (cases "0 < j")
    case True
    with assms pos [of j] show ?thesis by simp
  next
    case False
    with assms have "1 \<le> - j" "- j \<le> 2 ^ 53" by simp_all
    from pos [OF this] have "round_to_double (of_int (- j)) = Finite (of_int (- j))" .
    with round_to_double_neg [of "of_int (- j)"] assms show ?thesis by simp
  qed
qed


lemma js_sub_one_int:
  assumes "\<bar>i\<bar> < 2 ^ 53"
  shows "js_sub (Finite (of_int i)) (Finite 1) = Finite (of_int (i - 1))"
proof (cases "i - 1 = 0")
  case True
  then have "i = 1" by simp
  then show ?thesis by (simp add: js_sub_def)
next
  case False
  moreover have "\<bar>i - 1\<bar> \<le> 2 ^ 53" using assms by simp
  ultimately have "round_to_double (of_int (i - 1)) = Finite (of_int (i - 1))"
    by (rule round_to_double_int)
  moreover have "(of_int i :: rat) + - 1 \<noteq> 0"
    using False by (metis add_uminus_conv_diff of_int_1 of_int_diff of_int_eq_0_iff)
  ultimately show ?thesis by (simp add: js_sub_def)
qed

lemma js_add_one_at_limit:
  "js_add (Finite 9007199254740992) (Finite 1) = Finite 9007199254740992"
  by code_simp



lemma or_zero_cases:
  "or_zero None = Finite 0"
  "or_zero (Some NaN) = Finite 0"
  "or_zero (Some NegZero) = Finite 0"
  "or_zero (Some (Finite q)) = Finite q"
  "or_zero (Some PosInfinity) = PosInfinity"
  "or_zero (Some NegInfinity) = NegInfinity"
  by (simp_all add: or_zero_def falsy_def)

section \<open>Properties of the component\<close>

subsection \<open>Auxiliary facts\<close>




lemma mounted_addDebugLog: "mounted (addDebugLog clk m c) = mounted c"
  by (simp add: addDebugLog_def setState_def)





subsection \<open>The configuration the component passes\<close>

text \<open>
  Claim C2. \<open>configurePluginState\<close> passes exactly one configuration object to
  \<open>configure\<close> when the state service is there (and none when it is not), the object
  literal of the source, and this object meets every validity condition of section 4.1:
  its \<open>pluginId\<close> is \<open>PluginState\<close> and so not empty, its \<open>stateStrategy\<close> is
  \<open>session\<close>, which is the strategy the specification names, its \<open>preserveKeys\<close> are
  \<open>testData\<close>, \<open>saveCount\<close> and \<open>restoreCount\<close>, each of them a field of its
  \<open>stateSchema\<close>, and its \<open>maxStateSize\<close> is 10240 and so positive.
\<close>

theorem configuration_is_valid:
  "configurations_passed (calls (configurePluginState services clk c))
     = (if pluginState services = None then [] else [pluginStateConfiguration clk])
   \<and> list_all
        (\<lambda>cfg. pluginId cfg = ''PluginState''
           \<and> pluginId cfg \<noteq> []
           \<and> stateStrategy cfg = ''session''
           \<and> stateStrategy cfg \<in> set recognized_strategies
           \<and> preserveKeys cfg = [''testData'', ''saveCount'', ''restoreCount'']
           \<and> set (preserveKeys cfg) \<subseteq> set (map fst (stateSchema cfg))
           \<and> maxStateSize cfg = 10240
           \<and> 0 < maxStateSize cfg
           \<and> offending_fields recognized_strategies cfg = [])
        (configurations_passed (calls (configurePluginState services clk c)))"
  by (simp add: configurePluginState_def pluginStateConfiguration_def recognized_strategies_def
      offending_fields_def split: option.splits)

theorem configuration_is_valid_witness:
  "map pluginId (configurations_passed
      (calls (configurePluginState (sample_services (Inr ()) (Inr None)) sample_clock
         mounted_component))) = [''PluginState'']
   \<and> map stateStrategy (configurations_passed
      (calls (configurePluginState (sample_services (Inr ()) (Inr None)) sample_clock
         mounted_component))) = [''session'']
   \<and> map maxStateSize (configurations_passed
      (calls (configurePluginState (sample_services (Inr ()) (Inr None)) sample_clock
         mounted_component))) = [10240]"
  using configuration_is_valid
    [of "sample_services (Inr ()) (Inr None)" sample_clock mounted_component]
  by (simp add: sample_services_def pluginStateConfiguration_def)

text \<open>
  Accordingly the store of the specification, if it recognises \<open>session\<close>, accepts the
  configuration and makes it the active one.
\<close>

lemma configuration_accepted:
  assumes "''session'' \<in> set (recognizedStrategies pol)"
  shows "store_configure pol (pluginStateConfiguration clk) st
     = (Inr (), st\<lparr>configuration := Some (pluginStateConfiguration clk)\<rparr>)"
  using assms
  by (simp add: store_configure_def offending_fields_def pluginStateConfiguration_def)

subsection \<open>Rejections of the state service\<close>









subsection \<open>The debug log\<close>

text \<open>
  Claim C8, as stated, fails for the call that \<open>cleanupServices\<close> makes: React is
  unmounting the component and discards the update, so the log is what it was and does not
  end with the new entry.
\<close>

theorem log_of_cleanup_discarded:
  "debugLogs (state (component (initializeServices (sample_services (Inr ()) (Inr None))
      sample_clock mounted_component)))
     = [''[10:15:00] Theme service initialized'', ''[10:15:00] Page context service initialized'']
   \<and> debugLogs (state (component (componentWillUnmount (sample_services (Inr ()) (Inr None))
        later_clock
        (component (initializeServices (sample_services (Inr ()) (Inr None))
           sample_clock mounted_component)))))
     = [''[10:15:00] Theme service initialized'', ''[10:15:00] Page context service initialized'']
   \<and> last (debugLogs (state (component (componentWillUnmount
        (sample_services (Inr ()) (Inr None)) later_clock
        (component (initializeServices (sample_services (Inr ()) (Inr None))
           sample_clock mounted_component))))))
     \<noteq> logEntry later_clock ''Services cleaned up''"
  by (simp add: componentWillUnmount_def cleanupServices_def initializeServices_def
      sample_services_def mounted_component_def constructor_def setState_def addDebugLog_def
      slice_from_end_def logEntry_def sample_clock_def later_clock_def)

text \<open>
  Claim C8, amended. After every call to \<open>addDebugLog\<close> on a mounted component the
  component's \<open>debugLogs\<close> holds at most 20 entries; the new entry is the last one, and
  what precedes it is the old list with only its oldest entries (those before the last 19)
  dropped. A call on a component that is not mounted changes nothing.
\<close>

theorem addDebugLog_keeps_last_20:
  "(mounted c \<longrightarrow>
      length (debugLogs (state (addDebugLog clk message c))) \<le> 20
      \<and> length (debugLogs (state (addDebugLog clk message c)))
          = min 20 (length (debugLogs (state c)) + 1)
      \<and> last (debugLogs (state (addDebugLog clk message c))) = logEntry clk message
      \<and> butlast (debugLogs (state (addDebugLog clk message c)))
          = drop (length (debugLogs (state c)) - 19) (debugLogs (state c)))
   \<and> (\<not> mounted c \<longrightarrow> addDebugLog clk message c = c)"
  by (simp add: addDebugLog_def setState_def slice_from_end_def)

theorem addDebugLog_keeps_last_20_witness:
  "debugLogs (state (addDebugLog later_clock ''Theme changed to: dark'' mounted_component))
     = [''[10:15:02] Theme changed to: dark'']
   \<and> addDebugLog later_clock ''Theme changed to: dark'' (constructor sample_clock)
     = constructor sample_clock"
  using addDebugLog_keeps_last_20 [of mounted_component later_clock "''Theme changed to: dark''"]
    addDebugLog_keeps_last_20 [of "constructor sample_clock" later_clock "''Theme changed to: dark''"]
  by (simp add: mounted_component_def constructor_def addDebugLog_def setState_def
      slice_from_end_def logEntry_def later_clock_def)

subsection \<open>Changes made through the form\<close>




subsection \<open>Restoring\<close>




subsection \<open>Unmounting\<close>

text \<open>
  What \<open>componentWillUnmount\<close> calls: the removal of the theme listener when the theme
  service is there and the listener is set, then each unsubscribe function that a private
  field holds at that moment, once. After a mount that ran to its end these are all the
  registrations the component made.
\<close>

lemma unmount_releases_held:
  "calls (componentWillUnmount services clk c)
     = (if theme services \<noteq> None \<and> themeChangeListener c
        then [RemoveThemeChangeListener] else [])
       @ call_if_set (pageContextUnsubscribe c)
       @ call_if_set (saveStateUnsubscribe c)
       @ call_if_set (restoreStateUnsubscribe c)
       @ call_if_set (clearStateUnsubscribe c)
   \<and> subscriptions (component (componentWillUnmount services clk c)) = subscriptions c
   \<and> state (component (componentWillUnmount services clk c)) = state c
   \<and> \<not> mounted (component (componentWillUnmount services clk c))"
  by (simp add: componentWillUnmount_def cleanupServices_def subscriptions_def
      addDebugLog_def setState_def)

lemma unmount_after_completed_mount:
  "calls (componentDidMount (sample_services (Inr ()) (Inr None)) sample_clock
      (undisturbed sample_clock) (undisturbed sample_clock) (undisturbed later_clock)
      (undisturbed later_clock) (constructor sample_clock))
     = [GetCurrentTheme, AddThemeChangeListener, OnPageContextChange,
        Configure (pluginStateConfiguration sample_clock), OnSave, OnRestore, OnClear,
        GetState]
   \<and> calls (componentWillUnmount (sample_services (Inr ()) (Inr None)) later_clock
        (component (componentDidMount (sample_services (Inr ()) (Inr None)) sample_clock
           (undisturbed sample_clock) (undisturbed sample_clock) (undisturbed later_clock)
           (undisturbed later_clock) (constructor sample_clock))))
     = [RemoveThemeChangeListener, Unsubscribe 7, Unsubscribe 11, Unsubscribe 12,
        Unsubscribe 13]"
  by (simp add: componentDidMount_def initializeServices_def configurePluginState_def
      restoreState_def componentWillUnmount_def cleanupServices_def call_if_set_def
      sample_services_def undisturbed_def constructor_def setState_def addDebugLog_def
      Let_def)

text \<open>
  Claim C10 fails when the component is unmounted while \<open>componentDidMount\<close> is still
  under way. With all three services present, let React unmount the component in the pause
  after \<^verbatim>\<open>await this.initializeServices()\<close>. \<open>componentWillUnmount\<close> removes the theme
  listener and calls the page-context unsubscribe function (7), the only registrations made
  so far. \<open>componentDidMount\<close> then goes on, since nothing in it asks whether the
  component is still mounted: \<open>configurePluginState\<close> registers the \<open>onSave\<close>,
  \<open>onRestore\<close> and \<open>onClear\<close> callbacks and stores their unsubscribe functions (11, 12,
  13) in the private fields. \<open>componentWillUnmount\<close> has run already and React does not
  call it again, so none of the three is ever called: the three subscriptions outlive the
  component.
\<close>

theorem hooks_registered_after_unmount:
  "calls (componentDidMount (sample_services (Inr ()) (Inr None)) sample_clock
      (unmounted_meanwhile (sample_services (Inr ()) (Inr None)) sample_clock later_clock)
      (undisturbed later_clock) (undisturbed later_clock) (undisturbed later_clock)
      (constructor sample_clock))
     = [GetCurrentTheme, AddThemeChangeListener, OnPageContextChange,
        RemoveThemeChangeListener, Unsubscribe 7,
        Configure (pluginStateConfiguration later_clock), OnSave, OnRestore, OnClear,
        GetState]
   \<and> completion (componentDidMount (sample_services (Inr ()) (Inr None)) sample_clock
      (unmounted_meanwhile (sample_services (Inr ()) (Inr None)) sample_clock later_clock)
      (undisturbed later_clock) (undisturbed later_clock) (undisturbed later_clock)
      (constructor sample_clock)) = Resolved
   \<and> subscriptions (component (componentDidMount (sample_services (Inr ()) (Inr None))
      sample_clock
      (unmounted_meanwhile (sample_services (Inr ()) (Inr None)) sample_clock later_clock)
      (undisturbed later_clock) (undisturbed later_clock) (undisturbed later_clock)
      (constructor sample_clock)))
     = (True, Some 7, Some 11, Some 12, Some 13)
   \<and> \<not> mounted (component (componentDidMount (sample_services (Inr ()) (Inr None))
      sample_clock
      (unmounted_meanwhile (sample_services (Inr ()) (Inr None)) sample_clock later_clock)
      (undisturbed later_clock) (undisturbed later_clock) (undisturbed later_clock)
      (constructor sample_clock)))
   \<and> list_all (\<lambda>u. Unsubscribe u \<notin> set (calls (componentDidMount
        (sample_services (Inr ()) (Inr None)) sample_clock
        (unmounted_meanwhile (sample_services (Inr ()) (Inr None)) sample_clock later_clock)
        (undisturbed later_clock) (undisturbed later_clock) (undisturbed later_clock)
        (constructor sample_clock)))) [11, 12, 13]"
  by (simp add: componentDidMount_def initializeServices_def configurePluginState_def
      restoreState_def componentWillUnmount_def cleanupServices_def call_if_set_def
      unmounted_meanwhile_def subscriptions_def
      sample_services_def undisturbed_def constructor_def setState_def addDebugLog_def
      Let_def)

section \<open>Properties of the state service as specified\<close>

subsection \<open>Auxiliary facts\<close>

lemma validate_fields_conforming:
  "list_all (\<lambda>(k, v). case map_of schema k of None \<Rightarrow> True
                        | Some spec \<Rightarrow> conforms pol (type_name spec) v) xs
   \<Longrightarrow> validate_fields pol schema xs = Inr xs"
  by (induction xs) (auto split: option.splits)

lemma recheck_conforming:
  "list_all (\<lambda>(k, v). case map_of schema k of None \<Rightarrow> True
                        | Some spec \<Rightarrow> conforms pol (type_name spec) v) xs
   \<Longrightarrow> map (\<lambda>(k, v).
            case map_of schema k of
              None \<Rightarrow> (k, v)
            | Some spec \<Rightarrow>
                if conforms pol (type_name spec) v then (k, v) else (k, default_value spec))
         xs = xs"
  by (induction xs) (auto split: option.splits)

lemma revalidate_conforming:
  "list_all (\<lambda>(k, v). case map_of schema k of None \<Rightarrow> True
                        | Some spec \<Rightarrow> conforms pol (type_name spec) v) xs
   \<Longrightarrow> revalidate pol schema xs = xs @ missing_defaults schema xs"
  by (simp add: revalidate_def recheck_conforming)


subsection \<open>Save, then get\<close>

text \<open>
  Claim C3, as stated, fails on a snapshot that lacks a field of the schema. With the two
  fields \<open>counter\<close> and \<open>total\<close> preserved and declared with default 0, saving the
  snapshot that has \<open>counter = 5\<close> only succeeds, its size 15 being at most the maximum
  24; the following \<open>getState\<close> returns \<open>counter = 5\<close> and \<open>total = 0\<close>, which is not
  the snapshot made of exactly the preserved fields of what was saved.
\<close>

theorem save_then_get_not_exact:
  "store_configure sample_policy sample_configuration (sample_store\<lparr>configuration := None\<rparr>)
     = (Inr (), sample_store)
   \<and> fst (store_saveState sample_policy [(''counter'', 5)] sample_store) = Inr ()
   \<and> int (serializedSize sample_policy [(''counter'', 5)]) \<le> maxStateSize sample_configuration
   \<and> fst (store_getState sample_policy
        (snd (store_saveState sample_policy [(''counter'', 5)] sample_store)))
       = Inr (Some [(''counter'', 5), (''total'', 0)])
   \<and> keep_preserved sample_configuration [(''counter'', 5)] = [(''counter'', 5)]
   \<and> fst (store_getState sample_policy
        (snd (store_saveState sample_policy [(''counter'', 5)] sample_store)))
       \<noteq> Inr (Some (keep_preserved sample_configuration [(''counter'', 5)]))"
  by (simp add: sample_store_def sample_configuration_def sample_policy_def
      store_configure_def offending_fields_def
      store_saveState_def store_getState_def keep_preserved_def revalidate_def
      missing_defaults_def)

text \<open>
  Claim C3, amended. In a configured store, for every snapshot that conforms to the schema
  and whose serialised payload is at most \<open>maxStateSize\<close>, \<open>saveState\<close> succeeds and the
  following \<open>getState\<close> returns the preserved fields of the snapshot, unchanged and in
  their order, followed by the schema default of each field of the schema that is not among
  them.
\<close>

theorem save_then_get:
  assumes "configuration st = Some cfg"
    and "conforming pol cfg snap"
    and "int (serializedSize pol (keep_preserved cfg snap)) \<le> maxStateSize cfg"
  shows "fst (store_saveState pol snap st) = Inr ()
     \<and> fst (store_getState pol (snd (store_saveState pol snap st)))
         = Inr (Some (keep_preserved cfg snap
                      @ missing_defaults (stateSchema cfg) (keep_preserved cfg snap)))"
  using assms
  by (simp add: store_saveState_def store_getState_def conforming_def
      validate_fields_conforming revalidate_conforming)

theorem save_then_get_witness:
  "fst (store_saveState sample_policy [(''counter'', 5), (''extraneous'', 9)] sample_store) = Inr ()
   \<and> fst (store_getState sample_policy
        (snd (store_saveState sample_policy [(''counter'', 5), (''extraneous'', 9)] sample_store)))
       = Inr (Some [(''counter'', 5), (''total'', 0)])"
  using save_then_get [of sample_store sample_configuration sample_policy
      "[(''counter'', 5), (''extraneous'', 9)]"]
  by (simp add: sample_store_def sample_configuration_def sample_policy_def conforming_def
      keep_preserved_def missing_defaults_def)

subsection \<open>A snapshot that is too large\<close>




subsection \<open>Clearing\<close>

text \<open>
  Claim C5. In a configured store \<open>clearState\<close> succeeds; the following \<open>getState\<close>
  returns the "no state" result; a second \<open>clearState\<close> succeeds as well and changes
  nothing. The first one removes the snapshot of the configured plugin from the medium and
  leaves the snapshots of all other plugins, and the configuration, as they were.
\<close>

theorem clear_is_idempotent:
  assumes "configuration st = Some cfg"
  shows "fst (store_clearState st) = Inr ()
     \<and> fst (store_getState pol (snd (store_clearState st))) = Inr None
     \<and> store_clearState (snd (store_clearState st)) = (Inr (), snd (store_clearState st))
     \<and> medium (snd (store_clearState st)) = (medium st)(pluginId cfg := None)
     \<and> configuration (snd (store_clearState st)) = configuration st"
  using assms
  by (simp add: store_clearState_def store_getState_def)

theorem clear_is_idempotent_witness:
  "fst (store_clearState sample_store) = Inr ()
   \<and> fst (store_getState sample_policy (snd (store_clearState sample_store))) = Inr None
   \<and> fst (store_clearState (snd (store_clearState sample_store))) = Inr ()
   \<and> medium (snd (store_clearState sample_store)) ''Sample'' = None
   \<and> medium (snd (store_clearState sample_store)) ''Other'' = Some [(''x'', 2)]"
  using clear_is_idempotent [of sample_store sample_configuration sample_policy]
  by (simp add: sample_store_def sample_configuration_def)

end
